theory Spec2Isabelle
  imports Complex_Main
begin

section \<open>The speech engine of res\_speech\_google.c\<close>

text \<open>
  The module implements the callbacks of an Asterisk speech engine on top of one gRPC
  duplex stream. The embedding keeps the C structs as records, a pointer as an address
  option (\<open>None\<close> is \<open>NULL\<close>), the objects that the pointers of a session refer to in an
  explicit store, and the outcome of every call into the transport or the allocator as
  an argument of the callback that makes the call.

  A callback that dereferences an address which is not live in the store has undefined
  behaviour in C++; the callbacks that can do so return an option, and \<open>None\<close> is that
  case.
\<close>

subsection \<open>Protocol messages\<close>

datatype AudioEncoding = ENCODING_UNSPECIFIED | LINEAR16

text \<open>
  \<open>cfg_model\<close> is \<open>None\<close> when \<open>set_model\<close> is never called on the message, so that
  the field is absent from the frame.
\<close>

record RecognitionConfig =
  encoding :: AudioEncoding
  cfg_sample_rate_hertz :: int
  cfg_language_code :: string
  cfg_model :: "string option"
  cfg_enable_automatic_punctuation :: bool

record StreamingRecognitionConfig =
  config :: RecognitionConfig
  interim_results :: bool

datatype StreamingRecognizeRequest =
    StreamingConfig StreamingRecognitionConfig
  | AudioContent "char list"

text \<open>
  \<open>confidence\<close> and \<open>stability\<close> are protobuf floats that the module never computes
  with; they are carried as rationals, and \<open>0\<close> is the value of an unset field.
\<close>

record SpeechRecognitionAlternative =
  transcript :: string
  confidence :: rat

record StreamingRecognitionResult =
  alternatives :: "SpeechRecognitionAlternative list"
  is_final :: bool
  stability :: rat

record StreamingRecognizeResponse =
  results :: "StreamingRecognitionResult list"

subsection \<open>The store\<close>

type_synonym ptr = nat

text \<open>
  The client side of one duplex stream: the frames written on it so far, and whether
  the half-close has been signalled.
\<close>

record ClientReaderWriter =
  sent :: "StreamingRecognizeRequest list"
  half_closed :: bool

datatype cell =
    Chars string
  | Stub
  | ClientContext
  | Channel
  | Stream ClientReaderWriter

record world =
  cells :: "ptr \<rightharpoonup> cell"
  next_ptr :: ptr

definition alloc :: "cell \<Rightarrow> world \<Rightarrow> ptr \<times> world" where
  "alloc c w =
     (next_ptr w, w\<lparr>cells := (cells w)(next_ptr w \<mapsto> c), next_ptr := Suc (next_ptr w)\<rparr>)"

text \<open>
  \<open>delete p\<close> and \<open>ast_free(p)\<close> on a non-null address. The store does not
  record a release of an address that is not live: it stays as it is.
\<close>

definition release :: "ptr \<Rightarrow> world \<Rightarrow> world" where
  "release p w = w\<lparr>cells := (cells w)(p := None)\<rparr>"

text \<open>\<open>ast_free\<close> accepts \<open>NULL\<close> and then does nothing.\<close>

definition ast_free :: "ptr option \<Rightarrow> world \<Rightarrow> world" where
  "ast_free p w = (case p of None \<Rightarrow> w | Some a \<Rightarrow> release a w)"

text \<open>
  \<open>ast_strdup\<close> returns \<open>NULL\<close> when the allocation fails; \<open>ok\<close> is whether it
  succeeds.
\<close>

definition ast_strdup :: "bool \<Rightarrow> string \<Rightarrow> world \<Rightarrow> ptr option \<times> world" where
  "ast_strdup ok s w =
     (if ok then (let (p, w') = alloc (Chars s) w in (Some p, w')) else (None, w))"

text \<open>
  \<open>c_str()\<close> of a \<open>std::string\<close> read as a C string: the bytes before the first NUL.
\<close>

definition c_str :: "string \<Rightarrow> string" where
  "c_str s = takeWhile (\<lambda>c. c \<noteq> CHR 0x00) s"

text \<open>
  \<open>ast_strlen_zero(s)\<close> is \<open>!s || *s == 0\<close>; it reads the first byte behind a
  non-null address.
\<close>

definition ast_strlen_zero :: "world \<Rightarrow> ptr option \<Rightarrow> bool option" where
  "ast_strlen_zero w p =
     (case p of
        None \<Rightarrow> Some True
      | Some a \<Rightarrow> (case cells w a of Some (Chars s) \<Rightarrow> Some (s = []) | _ \<Rightarrow> None))"

subsection \<open>The structs\<close>

record google_speech_t =
  name :: "ptr option"
  speech_stub :: "ptr option"
  context_ptr :: "ptr option"
  stream :: "ptr option"
  last_result :: "ptr option"
  service_account_key_path :: "ptr option"
  language_code :: "ptr option"
  sample_rate_hertz :: int
  model :: "ptr option"
  enable_automatic_punctuation :: bool
  channel_ptr :: "ptr option"

datatype ast_speech_states =
    AST_SPEECH_STATE_NOT_READY
  | AST_SPEECH_STATE_READY
  | AST_SPEECH_STATE_WAIT
  | AST_SPEECH_STATE_DONE

text \<open>
  The part of Asterisk's \<open>struct ast_speech\<close> that the engine touches: its private
  \<open>data\<close> pointer, with the struct it points to held by value, and the state.
\<close>

record ast_speech =
  data :: "google_speech_t option"
  state :: ast_speech_states

text \<open>
  \<open>ast_speech_change_state\<close> of the Asterisk core stores the state; the engine calls it
  with \<open>NOT_READY\<close>, \<open>READY\<close> and \<open>DONE\<close> only.
\<close>

definition ast_speech_change_state :: "ast_speech \<Rightarrow> ast_speech_states \<Rightarrow> ast_speech" where
  "ast_speech_change_state speech st = speech\<lparr>state := st\<rparr>"

text \<open>
  Asterisk's \<open>struct ast_speech_result\<close>, which \<open>google_recog_get\<close> allocates zeroed
  and hands to the caller.
\<close>

record ast_speech_result =
  result_text :: "ptr option"
  score :: int
  nbest_num :: int
  grammar :: "ptr option"

text \<open>The outcome of a call into the transport: it returns, or it throws.\<close>

datatype 'a call = Returns 'a | Throws

subsection \<open>google\_recog\_get\<close>

text \<open>\<open>alloc_ok\<close> is whether \<open>ast_calloc\<close> of the result succeeds.\<close>

definition google_recog_get ::
  "bool \<Rightarrow> ast_speech \<Rightarrow> world \<Rightarrow> (ast_speech_result option \<times> ast_speech \<times> world) option" where
  "google_recog_get alloc_ok speech w =
     (case data speech of
        None \<Rightarrow> Some (None, speech, w)
      | Some google_speech \<Rightarrow>
          (case ast_strlen_zero w (last_result google_speech) of
             None \<Rightarrow> None
           | Some True \<Rightarrow> Some (None, speech, w)
           | Some False \<Rightarrow>
               if \<not> alloc_ok then Some (None, speech, w)
               else
                 Some (Some \<lparr>result_text = last_result google_speech, score = 100,
                             nbest_num = 0, grammar = None\<rparr>,
                       speech\<lparr>data := Some (google_speech\<lparr>last_result := None\<rparr>)\<rparr>,
                       w)))"

subsection \<open>google\_recog\_write\<close>

text \<open>A frame that \<open>Write\<close> accepted is appended to the log of the stream.\<close>

definition log_frame ::
  "ptr \<Rightarrow> ClientReaderWriter \<Rightarrow> StreamingRecognizeRequest \<Rightarrow> world \<Rightarrow> world" where
  "log_frame sp rw request w =
     w\<lparr>cells := (cells w)(sp \<mapsto> Stream (rw\<lparr>sent := sent rw @ [request]\<rparr>))\<rparr>"

text \<open>
  \<open>wr\<close> is the outcome of \<open>Write\<close>, \<open>rd\<close> the outcome of \<open>Read\<close> (\<open>Returns None\<close>
  when \<open>Read\<close> returns false, \<open>Returns (Some response)\<close> when it fills the response),
  \<open>dup_ok\<close> whether \<open>ast_strdup\<close> of the transcript succeeds, and \<open>bytes\<close> the
  \<open>len\<close> bytes at \<open>data\<close>.
\<close>

definition google_recog_write ::
  "bool call \<Rightarrow> StreamingRecognizeResponse option call \<Rightarrow> bool \<Rightarrow>
   ast_speech \<Rightarrow> char list \<Rightarrow> world \<Rightarrow> (int \<times> ast_speech \<times> world) option" where
  "google_recog_write wr rd dup_ok speech bytes w =
     (case data speech of
        None \<Rightarrow> Some (- 1, speech, w)
      | Some google_speech \<Rightarrow>
          (case stream google_speech of
             None \<Rightarrow> Some (- 1, speech, w)
           | Some sp \<Rightarrow>
               (case cells w sp of
                  Some (Stream rw) \<Rightarrow>
                    (case wr of
                       Throws \<Rightarrow> Some (- 1, speech, w)
                     | Returns False \<Rightarrow>
                         Some (- 1, ast_speech_change_state speech AST_SPEECH_STATE_NOT_READY, w)
                     | Returns True \<Rightarrow>
                         (let w1 = log_frame sp rw (AudioContent bytes) w in
                          case rd of
                            Throws \<Rightarrow> Some (- 1, speech, w1)
                          | Returns None \<Rightarrow> Some (0, speech, w1)
                          | Returns (Some response) \<Rightarrow>
                              (case results response of
                                 [] \<Rightarrow> Some (0, speech, w1)
                               | result # _ \<Rightarrow>
                                   (case alternatives result of
                                      [] \<Rightarrow> Some (0, speech, w1)
                                    | alternative # _ \<Rightarrow>
                                        (let w2 = ast_free (last_result google_speech) w1;
                                             (p, w3) = ast_strdup dup_ok
                                                         (c_str (transcript alternative)) w2;
                                             speech1 = speech\<lparr>data :=
                                                         Some (google_speech\<lparr>last_result := p\<rparr>)\<rparr>
                                         in if is_final result
                                            then Some (0, ast_speech_change_state speech1
                                                            AST_SPEECH_STATE_DONE, w3)
                                            else Some (0, speech1, w3))))))
                | _ \<Rightarrow> None)))"

subsection \<open>google\_recog\_stop\<close>

text \<open>\<open>wd\<close> is the outcome of \<open>WritesDone\<close>.\<close>

definition google_recog_stop ::
  "bool call \<Rightarrow> ast_speech \<Rightarrow> world \<Rightarrow> (int \<times> ast_speech \<times> world) option" where
  "google_recog_stop wd speech w =
     (case data speech of
        None \<Rightarrow> Some (0, speech, w)
      | Some google_speech \<Rightarrow>
          (case stream google_speech of
             None \<Rightarrow> Some (0, ast_speech_change_state speech AST_SPEECH_STATE_NOT_READY, w)
           | Some sp \<Rightarrow>
               (case cells w sp of
                  Some (Stream rw) \<Rightarrow>
                    (case wd of
                       Returns True \<Rightarrow>
                         Some (0, ast_speech_change_state speech AST_SPEECH_STATE_NOT_READY,
                               w\<lparr>cells := (cells w)(sp \<mapsto> Stream (rw\<lparr>half_closed := True\<rparr>))\<rparr>)
                     | Returns False \<Rightarrow>
                         Some (0, ast_speech_change_state speech AST_SPEECH_STATE_NOT_READY, w)
                     | Throws \<Rightarrow>
                         Some (0, ast_speech_change_state speech AST_SPEECH_STATE_NOT_READY, w))
                | _ \<Rightarrow> None)))"

text \<open>
  Consecutive calls of \<open>google_recog_stop\<close> on one session, one \<open>WritesDone\<close> outcome
  for each call; the value is what each call returned and the state it left.
\<close>

fun stop_calls ::
  "bool call list \<Rightarrow> ast_speech \<Rightarrow> world \<Rightarrow> (int \<times> ast_speech_states) list option" where
  "stop_calls [] speech w = Some []"
| "stop_calls (wd # wds) speech w =
     (case google_recog_stop wd speech w of
        None \<Rightarrow> None
      | Some (r, speech1, w1) \<Rightarrow>
          (case stop_calls wds speech1 w1 of
             None \<Rightarrow> None
           | Some t \<Rightarrow> Some ((r, state speech1) # t)))"

subsection \<open>google\_recog\_destroy\<close>

text \<open>
  \<open>fin\<close> is the outcome of \<open>Finish\<close>: whether the status it returns is ok, or that it
  throws. The exception is caught after the \<open>Finish\<close> call, so that the stream is then
  neither deleted nor cleared. The struct itself is freed at the end, which is
  \<open>data := None\<close>.
\<close>

definition google_recog_destroy ::
  "bool call \<Rightarrow> ast_speech \<Rightarrow> world \<Rightarrow> (int \<times> ast_speech \<times> world) option" where
  "google_recog_destroy fin speech w =
     (case data speech of
        None \<Rightarrow> Some (0, speech, w)
      | Some google_speech \<Rightarrow>
          (case (case stream google_speech of
                   None \<Rightarrow> Some w
                 | Some sp \<Rightarrow>
                     (case cells w sp of
                        Some (Stream rw) \<Rightarrow>
                          (case fin of
                             Returns ok \<Rightarrow> Some (release sp w)
                           | Throws \<Rightarrow> Some w)
                      | _ \<Rightarrow> None)) of
             None \<Rightarrow> None
           | Some w1 \<Rightarrow>
               (let w2 = (case context_ptr google_speech of
                            None \<Rightarrow> w1 | Some c \<Rightarrow> release c w1);
                    w3 = (case speech_stub google_speech of
                            None \<Rightarrow> w2 | Some s \<Rightarrow> release s w2);
                    w4 = ast_free (name google_speech) w3;
                    w5 = ast_free (last_result google_speech) w4;
                    w6 = ast_free (service_account_key_path google_speech) w5;
                    w7 = ast_free (language_code google_speech) w6
                in Some (0, speech\<lparr>data := None\<rparr>, w7))))"

subsection \<open>google\_recog\_start\<close>

text \<open>The string behind a non-null \<open>char *\<close>.\<close>

definition chars_at :: "world \<Rightarrow> ptr \<Rightarrow> string option" where
  "chars_at w a = (case cells w a of Some (Chars s) \<Rightarrow> Some s | _ \<Rightarrow> None)"

text \<open>
  The test \<open>model && model[0] != 0 && strcmp(model, "default") != 0\<close> that guards
  \<open>set_model\<close>: the outer option is the undefined read, the inner one the value that
  \<open>set_model\<close> receives, if it is called.
\<close>

definition model_to_set :: "world \<Rightarrow> ptr option \<Rightarrow> string option option" where
  "model_to_set w mp =
     (case mp of
        None \<Rightarrow> Some None
      | Some a \<Rightarrow>
          (case chars_at w a of
             None \<Rightarrow> None
           | Some m \<Rightarrow> Some (if m \<noteq> [] \<and> m \<noteq> ''default'' then Some m else None)))"

text \<open>
  \<open>opn\<close> is the outcome of \<open>StreamingRecognize\<close>, \<open>wr\<close> of the \<open>Write\<close> of the
  configuration frame, \<open>fin\<close> of the \<open>Finish\<close> that follows a failed \<open>Write\<close>.
  \<open>new\<close> never yields a null pointer, so the test of the new stream against \<open>NULL\<close>
  has no branch here. Two places are undefined beyond dangling reads: a null
  \<open>language_code\<close> is passed to \<open>set_language_code\<close>, and when \<open>StreamingRecognize\<close>
  throws after an old stream was deleted, the handler deletes that stream again.
  An exception of \<open>Write\<close> or of \<open>Finish\<close> reaches the handler, which deletes the
  new stream and clears the field, as the failure branch itself does.
\<close>

definition google_recog_start ::
  "unit call \<Rightarrow> bool call \<Rightarrow> bool call \<Rightarrow> ast_speech \<Rightarrow> world \<Rightarrow>
   (int \<times> ast_speech \<times> world) option" where
  "google_recog_start opn wr fin speech_obj w =
     (case data speech_obj of
        None \<Rightarrow> Some (- 1, speech_obj, w)
      | Some google_speech \<Rightarrow>
          (case (speech_stub google_speech, context_ptr google_speech) of
             (Some stub, Some ctx) \<Rightarrow>
               if cells w stub \<noteq> Some Stub \<or> cells w ctx \<noteq> Some ClientContext then None
               else
                 (let w1 = (case stream google_speech of
                              None \<Rightarrow> w | Some old \<Rightarrow> release old w)
                  in case opn of
                       Throws \<Rightarrow>
                         (case stream google_speech of
                            None \<Rightarrow> Some (- 1, speech_obj, w1)
                          | Some old \<Rightarrow> None)
                     | Returns u \<Rightarrow>
                         (let rw = \<lparr>sent = [], half_closed = False\<rparr>;
                              (sp, w2) = alloc (Stream rw) w1;
                              started = google_speech\<lparr>stream := Some sp\<rparr>;
                              failed = (- 1, speech_obj\<lparr>data := Some (started\<lparr>stream := None\<rparr>)\<rparr>,
                                        release sp w2)
                          in case language_code started of
                               None \<Rightarrow> None
                             | Some lp \<Rightarrow>
                                 (case chars_at w2 lp of
                                    None \<Rightarrow> None
                                  | Some lang \<Rightarrow>
                                      (case model_to_set w2 (model started) of
                                         None \<Rightarrow> None
                                       | Some m \<Rightarrow>
                                           (let request = StreamingConfig
                                                  \<lparr>config =
                                                     \<lparr>encoding = LINEAR16,
                                                      cfg_sample_rate_hertz =
                                                        sample_rate_hertz started,
                                                      cfg_language_code = lang,
                                                      cfg_model = m,
                                                      cfg_enable_automatic_punctuation =
                                                        enable_automatic_punctuation started\<rparr>,
                                                   interim_results = True\<rparr>
                                            in case wr of
                                                 Returns True \<Rightarrow>
                                                   Some (0,
                                                         ast_speech_change_state
                                                           (speech_obj\<lparr>data := Some started\<rparr>)
                                                           AST_SPEECH_STATE_READY,
                                                         log_frame sp rw request w2)
                                               | Returns False \<Rightarrow>
                                                   (case fin of
                                                      Returns ok \<Rightarrow> Some failed
                                                    | Throws \<Rightarrow> Some failed)
                                               | Throws \<Rightarrow> Some failed)))))
           | _ \<Rightarrow> Some (- 1, speech_obj, w)))"

subsection \<open>Grammar, DTMF and settings callbacks\<close>

text \<open>
  These callbacks test the \<open>data\<close> pointer, write a log line and return a constant;
  \<open>google_recog_get_settings\<close> never writes to its buffer.
\<close>

definition google_recog_load_grammar :: "ast_speech \<Rightarrow> string \<Rightarrow> string \<Rightarrow> int" where
  "google_recog_load_grammar speech grammar_name grammar_path =
     (case data speech of None \<Rightarrow> - 1 | Some google_speech \<Rightarrow> 0)"

definition google_recog_unload_grammar :: "ast_speech \<Rightarrow> string \<Rightarrow> int" where
  "google_recog_unload_grammar speech grammar_name =
     (case data speech of None \<Rightarrow> - 1 | Some google_speech \<Rightarrow> 0)"

definition google_recog_activate_grammar :: "ast_speech \<Rightarrow> string \<Rightarrow> int" where
  "google_recog_activate_grammar speech grammar_name =
     (case data speech of None \<Rightarrow> - 1 | Some google_speech \<Rightarrow> 0)"

definition google_recog_deactivate_grammar :: "ast_speech \<Rightarrow> string \<Rightarrow> int" where
  "google_recog_deactivate_grammar speech grammar_name =
     (case data speech of None \<Rightarrow> - 1 | Some google_speech \<Rightarrow> 0)"

definition google_recog_dtmf :: "ast_speech \<Rightarrow> string \<Rightarrow> int" where
  "google_recog_dtmf speech dtmf =
     (case data speech of None \<Rightarrow> 0 | Some google_speech \<Rightarrow> 0)"

definition google_recog_change :: "ast_speech \<Rightarrow> string \<Rightarrow> string \<Rightarrow> int" where
  "google_recog_change speech setting_name setting_value =
     (case data speech of None \<Rightarrow> - 1 | Some google_speech \<Rightarrow> 0)"

definition google_recog_get_settings :: "ast_speech \<Rightarrow> string \<Rightarrow> int" where
  "google_recog_get_settings speech setting_name =
     (case data speech of None \<Rightarrow> - 1 | Some google_speech \<Rightarrow> - 1)"

datatype ast_speech_results_type =
    AST_SPEECH_RESULTS_TYPE_NORMAL
  | AST_SPEECH_RESULTS_TYPE_NBEST

definition google_recog_change_results_type ::
  "ast_speech \<Rightarrow> ast_speech_results_type \<Rightarrow> int" where
  "google_recog_change_results_type speech results_type =
     (case data speech of None \<Rightarrow> - 1 | Some google_speech \<Rightarrow> - 1)"

subsection \<open>Well-formed stream pointer\<close>

text \<open>
  The \<open>stream\<close> field of a session is null or the address of a live stream: the
  sessions on which \<open>WritesDone\<close> and \<open>Write\<close> are not called through a dangling
  pointer.
\<close>

definition stream_usable :: "world \<Rightarrow> google_speech_t \<Rightarrow> bool" where
  "stream_usable w g =
     (case stream g of
        None \<Rightarrow> True
      | Some sp \<Rightarrow> (case cells w sp of Some (Stream rw) \<Rightarrow> True | _ \<Rightarrow> False))"

subsection \<open>One utterance, state by state\<close>

text \<open>
  The session that \<open>google_recog_create\<close> builds when no configuration file exists
  and the format is 16 kHz signed linear: the name \<open>google\<close>, the language \<open>en-US\<close>,
  the model \<open>default\<close>, no key path, and the channel, stub and context objects.
\<close>

definition created_world :: world where
  "created_world =
     \<lparr>cells = [1 \<mapsto> Chars ''google'', 2 \<mapsto> Chars ''en-US'', 3 \<mapsto> Chars ''default'',
               4 \<mapsto> Channel, 5 \<mapsto> Stub, 6 \<mapsto> ClientContext],
      next_ptr = 7\<rparr>"

definition created_session :: google_speech_t where
  "created_session =
     \<lparr>name = Some 1, speech_stub = Some 5, context_ptr = Some 6, stream = None,
      last_result = None, service_account_key_path = None, language_code = Some 2,
      sample_rate_hertz = 16000, model = Some 3, enable_automatic_punctuation = False,
      channel_ptr = Some 4\<rparr>"

definition created_speech :: ast_speech where
  "created_speech = \<lparr>data = Some created_session, state = AST_SPEECH_STATE_NOT_READY\<rparr>"

text \<open>After a successful \<open>google_recog_start\<close>.\<close>

definition default_config_frame :: StreamingRecognizeRequest where
  "default_config_frame =
     StreamingConfig
       \<lparr>config = \<lparr>encoding = LINEAR16, cfg_sample_rate_hertz = 16000,
                  cfg_language_code = ''en-US'', cfg_model = None,
                  cfg_enable_automatic_punctuation = False\<rparr>,
        interim_results = True\<rparr>"

definition started_world :: world where
  "started_world =
     \<lparr>cells = (cells created_world)
                (7 \<mapsto> Stream \<lparr>sent = [default_config_frame], half_closed = False\<rparr>),
      next_ptr = 8\<rparr>"

definition started_session :: google_speech_t where
  "started_session = created_session\<lparr>stream := Some 7\<rparr>"

definition started_speech :: ast_speech where
  "started_speech = \<lparr>data = Some started_session, state = AST_SPEECH_STATE_READY\<rparr>"

text \<open>
  After one \<open>google_recog_write\<close> of four bytes that the service answers with the
  final transcript \<open>hello world\<close> of confidence 0.91.
\<close>

definition hello_alternative :: SpeechRecognitionAlternative where
  "hello_alternative = \<lparr>transcript = ''hello world'', confidence = 91 / 100\<rparr>"

definition hello_response :: StreamingRecognizeResponse where
  "hello_response =
     \<lparr>results = [\<lparr>alternatives = [hello_alternative], is_final = True, stability = 0\<rparr>]\<rparr>"

definition heard_world :: world where
  "heard_world =
     \<lparr>cells = (cells created_world)
                (7 \<mapsto> Stream \<lparr>sent = [default_config_frame, AudioContent ''abcd''],
                                half_closed = False\<rparr>,
                 8 \<mapsto> Chars ''hello world''),
      next_ptr = 9\<rparr>"

definition heard_session :: google_speech_t where
  "heard_session = created_session\<lparr>stream := Some 7, last_result := Some 8\<rparr>"

definition heard_speech :: ast_speech where
  "heard_speech = \<lparr>data = Some heard_session, state = AST_SPEECH_STATE_DONE\<rparr>"

text \<open>After \<open>google_recog_get\<close> has handed the transcript to the caller.\<close>

definition hello_result :: ast_speech_result where
  "hello_result = \<lparr>result_text = Some 8, score = 100, nbest_num = 0, grammar = None\<rparr>"

definition polled_session :: google_speech_t where
  "polled_session = created_session\<lparr>stream := Some 7, last_result := None\<rparr>"

definition polled_speech :: ast_speech where
  "polled_speech = \<lparr>data = Some polled_session, state = AST_SPEECH_STATE_DONE\<rparr>"

text \<open>
  The service answers the same write with a final result whose transcript is the
  empty string instead: the session is again \<open>heard_speech\<close>, and the slot points to
  an empty string.
\<close>

definition silent_response :: StreamingRecognizeResponse where
  "silent_response =
     \<lparr>results = [\<lparr>alternatives = [\<lparr>transcript = [], confidence = 0\<rparr>],
                  is_final = True, stability = 0\<rparr>]\<rparr>"

definition silent_world :: world where
  "silent_world =
     \<lparr>cells = (cells created_world)
                (7 \<mapsto> Stream \<lparr>sent = [default_config_frame, AudioContent ''abcd''],
                                half_closed = False\<rparr>,
                 8 \<mapsto> Chars []),
      next_ptr = 9\<rparr>"

text \<open>What \<open>google_recog_destroy\<close> leaves of \<open>heard_world\<close>.\<close>

definition leaked_world :: world where
  "leaked_world = \<lparr>cells = [3 \<mapsto> Chars ''default'', 4 \<mapsto> Channel], next_ptr = 9\<rparr>"

text \<open>
  The created session when the configuration file sets \<open>model = phone_call\<close>, and
  the frame that \<open>google_recog_start\<close> then writes.
\<close>

definition tuned_world :: world where
  "tuned_world = created_world\<lparr>cells := (cells created_world)(3 \<mapsto> Chars ''phone_call'')\<rparr>"

definition tuned_config_frame :: StreamingRecognizeRequest where
  "tuned_config_frame =
     StreamingConfig
       \<lparr>config = \<lparr>encoding = LINEAR16, cfg_sample_rate_hertz = 16000,
                  cfg_language_code = ''en-US'', cfg_model = Some ''phone_call'',
                  cfg_enable_automatic_punctuation = False\<rparr>,
        interim_results = True\<rparr>"

definition tuned_started_world :: world where
  "tuned_started_world =
     \<lparr>cells = (cells tuned_world)
                (7 \<mapsto> Stream \<lparr>sent = [tuned_config_frame], half_closed = False\<rparr>),
      next_ptr = 8\<rparr>"

text \<open>A speech object whose engine data pointer is null.\<close>

definition null_speech :: ast_speech where
  "null_speech = \<lparr>data = None, state = AST_SPEECH_STATE_NOT_READY\<rparr>"

section \<open>Properties\<close>

lemmas example_defs =
  created_world_def created_session_def created_speech_def default_config_frame_def
  started_world_def started_session_def started_speech_def hello_alternative_def
  hello_response_def heard_world_def heard_session_def heard_speech_def hello_result_def
  polled_session_def polled_speech_def leaked_world_def null_speech_def
  tuned_world_def tuned_config_frame_def tuned_started_world_def
  silent_response_def silent_world_def

lemmas store_defs =
  alloc_def release_def ast_free_def ast_strdup_def c_str_def ast_strlen_zero_def
  chars_at_def model_to_set_def log_frame_def ast_speech_change_state_def

subsection \<open>The utterance, step by step\<close>

lemma start_created:
  "google_recog_start (Returns ()) (Returns True) fin created_speech created_world =
     Some (0, started_speech, started_world)"
  by (simp add: google_recog_start_def example_defs store_defs)

lemma write_started:
  "google_recog_write (Returns True) (Returns (Some hello_response)) True
     started_speech ''abcd'' started_world = Some (0, heard_speech, heard_world)"
  by (simp add: google_recog_write_def example_defs store_defs)

lemma get_heard:
  "google_recog_get True heard_speech heard_world =
     Some (Some hello_result, polled_speech, heard_world)"
  by (simp add: google_recog_get_def example_defs store_defs)

lemma start_tuned:
  "google_recog_start (Returns ()) (Returns True) fin created_speech tuned_world =
     Some (0, started_speech, tuned_started_world)"
  by (simp add: google_recog_start_def example_defs store_defs)

lemma data_created: "data created_speech = Some created_session"
  by (simp add: created_speech_def)

lemma data_started: "data started_speech = Some started_session"
  by (simp add: started_speech_def)

lemma stream_started: "stream started_session = Some 7"
  by (simp add: started_session_def)

lemma cells_started:
  "cells started_world 7 = Some (Stream \<lparr>sent = [default_config_frame], half_closed = False\<rparr>)"
  by (simp add: started_world_def)

lemma data_heard: "data heard_speech = Some heard_session"
  by (simp add: heard_speech_def)

lemma last_result_heard: "last_result heard_session = Some 8"
  by (simp add: heard_session_def)

lemma cells_heard: "cells heard_world 8 = Some (Chars ''hello world'')"
  by (simp add: heard_world_def)

subsection \<open>Result consumption\<close>

text \<open>
  Claim C1, as the specification states it, fails. \<open>google_recog_write\<close> buffers the
  transcript of a final result without looking at it; when that transcript is the
  empty string, the slot holds a buffered transcript and the state is \<open>DONE\<close>, yet
  \<open>google_recog_get\<close> returns no result and does not clear the slot, because its test
  \<open>ast_strlen_zero\<close> takes the empty string for an empty slot.
\<close>

theorem google_recog_get_empty_transcript_counterexample:
  "google_recog_write (Returns True) (Returns (Some silent_response)) True
     started_speech ''abcd'' started_world = Some (0, heard_speech, silent_world) \<and>
   state heard_speech = AST_SPEECH_STATE_DONE \<and>
   last_result heard_session = Some 8 \<and>
   cells silent_world 8 = Some (Chars []) \<and>
   google_recog_get True heard_speech silent_world = Some (None, heard_speech, silent_world)"
  by (simp add: google_recog_write_def google_recog_get_def example_defs store_defs)

text \<open>
  Claim C1, amended. For every session whose result slot holds a non-empty buffered
  transcript, \<open>google_recog_get\<close>, when its allocation of the result object succeeds,
  returns a result whose text is that very string, with the store untouched, and
  clears the slot, so that a second call that follows immediately returns no result.
  When the slot is empty in the sense of \<open>ast_strlen_zero\<close>, that is null or pointing
  to an empty string, the call returns no result and leaves the session and the store
  as they are.
\<close>

theorem google_recog_get_transfers_once:
  "data speech = Some g \<Longrightarrow>
   (\<forall>p t. last_result g = Some p \<and> cells w p = Some (Chars t) \<and> t \<noteq> [] \<longrightarrow>
      google_recog_get True speech w =
        Some (Some \<lparr>result_text = Some p, score = 100, nbest_num = 0, grammar = None\<rparr>,
              speech\<lparr>data := Some (g\<lparr>last_result := None\<rparr>)\<rparr>, w) \<and>
      (\<forall>a. google_recog_get a (speech\<lparr>data := Some (g\<lparr>last_result := None\<rparr>)\<rparr>) w =
             Some (None, speech\<lparr>data := Some (g\<lparr>last_result := None\<rparr>)\<rparr>, w))) \<and>
   (ast_strlen_zero w (last_result g) = Some True \<longrightarrow>
      (\<forall>a. google_recog_get a speech w = Some (None, speech, w)))"
  by (simp add: google_recog_get_def ast_strlen_zero_def)

theorem google_recog_get_transfers_once_witness:
  "google_recog_get True heard_speech heard_world =
     Some (Some hello_result, polled_speech, heard_world) \<and>
   google_recog_get True polled_speech heard_world = Some (None, polled_speech, heard_world) \<and>
   google_recog_get True started_speech started_world =
     Some (None, started_speech, started_world)"
  using google_recog_get_transfers_once [OF data_heard, of heard_world]
    google_recog_get_transfers_once [OF data_started, of started_world]
  by (simp add: example_defs ast_strlen_zero_def)

text \<open>
  Claim C9. For every session with a buffered transcript, when the allocation of the
  result object inside \<open>google_recog_get\<close> fails, the call returns no result and the
  session and the store are unchanged; a later call whose allocation succeeds still
  returns the transcript.
\<close>

theorem google_recog_get_alloc_failure:
  "data speech = Some g \<Longrightarrow> last_result g = Some p \<Longrightarrow> cells w p = Some (Chars t) \<Longrightarrow>
   t \<noteq> [] \<Longrightarrow>
   google_recog_get False speech w = Some (None, speech, w) \<and>
   google_recog_get True speech w =
     Some (Some \<lparr>result_text = Some p, score = 100, nbest_num = 0, grammar = None\<rparr>,
           speech\<lparr>data := Some (g\<lparr>last_result := None\<rparr>)\<rparr>, w)"
  by (simp add: google_recog_get_def ast_strlen_zero_def)

theorem google_recog_get_alloc_failure_witness:
  "google_recog_get False heard_speech heard_world = Some (None, heard_speech, heard_world) \<and>
   google_recog_get True heard_speech heard_world =
     Some (Some hello_result, polled_speech, heard_world)"
  using google_recog_get_alloc_failure [OF data_heard last_result_heard cells_heard]
  by (simp add: example_defs)

text \<open>
  Claim C3, as the specification states it, fails: the alternative that the service
  delivered carries the confidence 0.91, and the result that \<open>google_recog_get\<close> then
  returns has the score 100, which is neither that confidence nor its percentage.
\<close>

theorem google_recog_get_score_counterexample:
  "google_recog_write (Returns True) (Returns (Some hello_response)) True
     started_speech ''abcd'' started_world = Some (0, heard_speech, heard_world) \<and>
   google_recog_get True heard_speech heard_world =
     Some (Some hello_result, polled_speech, heard_world) \<and>
   confidence hello_alternative \<noteq> 0 \<and>
   rat_of_int (score hello_result) \<noteq> confidence hello_alternative \<and>
   rat_of_int (score hello_result) \<noteq> 100 * confidence hello_alternative"
  by (simp add: google_recog_write_def google_recog_get_def example_defs store_defs)

text \<open>
  Claim C3, amended. Every result that \<open>google_recog_get\<close> returns has the fixed
  placeholder score 100, whatever \<open>google_recog_write\<close> received from the service
  before, with or without a confidence.
\<close>

theorem google_recog_get_score_placeholder:
  "google_recog_write wr rd dup_ok speech bytes w = Some (rc, speech1, w1) \<Longrightarrow>
   google_recog_get alloc_ok speech1 w1 = Some (Some r, speech2, w2) \<Longrightarrow>
   score r = 100"
  by (auto simp: google_recog_get_def split: option.splits bool.splits if_splits)

theorem google_recog_get_score_placeholder_witness:
  "google_recog_write (Returns True) (Returns (Some hello_response)) True
     started_speech ''abcd'' started_world = Some (0, heard_speech, heard_world) \<and>
   google_recog_get True heard_speech heard_world =
     Some (Some hello_result, polled_speech, heard_world) \<and>
   score hello_result = 100"
  using google_recog_get_score_placeholder [OF write_started get_heard]
    write_started get_heard
  by simp

subsection \<open>The write path\<close>




text \<open>
  Claim C8. For every \<open>google_recog_write\<close> whose \<open>Write\<close> succeeds and whose
  \<open>Read\<close> delivers a response with no result entry, or with a first result entry that
  has no alternative, the call returns \<open>0\<close> and the session, with its result slot and
  its state, is unchanged; the store changes at the stream only, by the logged frame.
\<close>

theorem google_recog_write_empty_batch:
  "data speech = Some g \<Longrightarrow> stream g = Some sp \<Longrightarrow> cells w sp = Some (Stream rw) \<Longrightarrow>
   results response = [] \<or> (\<exists>r rs. results response = r # rs \<and> alternatives r = []) \<Longrightarrow>
   google_recog_write (Returns True) (Returns (Some response)) dup_ok speech bytes w =
     Some (0, speech, log_frame sp rw (AudioContent bytes) w) \<and>
   (\<forall>p. p \<noteq> sp \<longrightarrow> cells (log_frame sp rw (AudioContent bytes) w) p = cells w p)"
  by (auto simp: google_recog_write_def log_frame_def)

theorem google_recog_write_empty_batch_witness:
  "google_recog_write (Returns True) (Returns (Some \<lparr>results = []\<rparr>)) True
     started_speech ''abcd'' started_world =
     Some (0, started_speech,
           started_world\<lparr>cells := (cells started_world)
             (7 \<mapsto> Stream \<lparr>sent = [default_config_frame, AudioContent ''abcd''],
                             half_closed = False\<rparr>)\<rparr>) \<and>
   google_recog_write (Returns True)
     (Returns (Some \<lparr>results = [\<lparr>alternatives = [], is_final = True, stability = 0\<rparr>]\<rparr>)) True
     started_speech ''abcd'' started_world =
     Some (0, started_speech,
           started_world\<lparr>cells := (cells started_world)
             (7 \<mapsto> Stream \<lparr>sent = [default_config_frame, AudioContent ''abcd''],
                             half_closed = False\<rparr>)\<rparr>)"
  using google_recog_write_empty_batch
          [OF data_started stream_started cells_started, of "\<lparr>results = []\<rparr>"]
    google_recog_write_empty_batch
          [OF data_started stream_started cells_started,
           of "\<lparr>results = [\<lparr>alternatives = [], is_final = True, stability = 0\<rparr>]\<rparr>"]
  by (simp add: log_frame_def)

subsection \<open>The configuration frame\<close>

lemma chars_at_alloc_release:
  assumes "chars_at (snd (alloc (Stream rw)
                      (case old of None \<Rightarrow> w | Some a \<Rightarrow> release a w))) p = Some s"
  shows "chars_at w p = Some s"
  using assms
  by (auto simp: chars_at_def alloc_def release_def split: option.splits cell.splits if_splits)

lemma model_to_set_alloc_release:
  assumes "model_to_set (snd (alloc (Stream rw)
                          (case old of None \<Rightarrow> w | Some a \<Rightarrow> release a w))) mp = Some m"
  shows "model_to_set w mp = Some m"
proof (cases mp)
  case None
  with assms show ?thesis by (simp add: model_to_set_def)
next
  case (Some a)
  with assms obtain s where
    s: "chars_at (snd (alloc (Stream rw)
                    (case old of None \<Rightarrow> w | Some a \<Rightarrow> release a w))) a = Some s"
    and m: "m = (if s \<noteq> [] \<and> s \<noteq> ''default'' then Some s else None)"
    by (auto simp: model_to_set_def split: option.splits)
  from s have "chars_at w a = Some s" by (rule chars_at_alloc_release)
  with Some m show ?thesis by (simp add: model_to_set_def)
qed

text \<open>
  Claim C5. For every session on which \<open>google_recog_start\<close> succeeds, the log of the
  new stream holds exactly one frame, a configuration frame, with the encoding
  \<open>LINEAR16\<close>, the sample rate, the language code and the punctuation flag of the
  session, and interim results enabled. The model field is set if and only if the
  model of the session is a non-empty string other than \<open>default\<close>, and is then that
  string.
\<close>

theorem google_recog_start_config_frame:
  assumes ok: "google_recog_start opn wr fin speech_obj w = Some (0, speech1, w1)"
    and d: "data speech_obj = Some g"
  shows "\<exists>lp lang m.
           language_code g = Some lp \<and> chars_at w lp = Some lang \<and>
           data speech1 = Some (g\<lparr>stream := Some (next_ptr w)\<rparr>) \<and>
           state speech1 = AST_SPEECH_STATE_READY \<and>
           cells w1 (next_ptr w) =
             Some (Stream
               \<lparr>sent = [StreamingConfig
                          \<lparr>config = \<lparr>encoding = LINEAR16,
                                     cfg_sample_rate_hertz = sample_rate_hertz g,
                                     cfg_language_code = lang,
                                     cfg_model = m,
                                     cfg_enable_automatic_punctuation =
                                       enable_automatic_punctuation g\<rparr>,
                           interim_results = True\<rparr>],
                half_closed = False\<rparr>) \<and>
           (m \<noteq> None \<longleftrightarrow>
              (\<exists>mp ms. model g = Some mp \<and> chars_at w mp = Some ms \<and>
                       ms \<noteq> [] \<and> ms \<noteq> ''default'')) \<and>
           (\<forall>ms. m = Some ms \<longrightarrow> (\<exists>mp. model g = Some mp \<and> chars_at w mp = Some ms))"
proof -
  let ?w1 = "case stream g of None \<Rightarrow> w | Some a \<Rightarrow> release a w"
  let ?rw = "\<lparr>sent = [], half_closed = False\<rparr>"
  let ?w2 = "snd (alloc (Stream ?rw) ?w1)"
  have sp: "fst (alloc (Stream ?rw) ?w1) = next_ptr w"
    by (simp add: alloc_def release_def split: option.splits)
  from ok d obtain lp lang m where
    lp: "language_code g = Some lp" and
    lang: "chars_at ?w2 lp = Some lang" and
    m: "model_to_set ?w2 (model g) = Some m" and
    res: "speech1 = ast_speech_change_state
                      (speech_obj\<lparr>data := Some (g\<lparr>stream := Some (next_ptr w)\<rparr>)\<rparr>)
                      AST_SPEECH_STATE_READY"
         "w1 = log_frame (next_ptr w) ?rw
                 (StreamingConfig
                    \<lparr>config = \<lparr>encoding = LINEAR16,
                               cfg_sample_rate_hertz = sample_rate_hertz g,
                               cfg_language_code = lang,
                               cfg_model = m,
                               cfg_enable_automatic_punctuation =
                                 enable_automatic_punctuation g\<rparr>,
                     interim_results = True\<rparr>) ?w2"
    using sp
    by (auto simp: google_recog_start_def Let_def split_beta
             split: option.splits if_splits call.splits bool.splits)
  from lang have lang': "chars_at w lp = Some lang"
    by (rule chars_at_alloc_release)
  from m have m': "model_to_set w (model g) = Some m"
    by (rule model_to_set_alloc_release)
  have iff: "m \<noteq> None \<longleftrightarrow>
              (\<exists>mp ms. model g = Some mp \<and> chars_at w mp = Some ms \<and>
                       ms \<noteq> [] \<and> ms \<noteq> ''default'')"
    using m'
    by (cases "model g") (fastforce simp: model_to_set_def split: option.splits if_splits)+
  have val: "\<forall>ms. m = Some ms \<longrightarrow> (\<exists>mp. model g = Some mp \<and> chars_at w mp = Some ms)"
    using m'
    by (cases "model g") (fastforce simp: model_to_set_def split: option.splits if_splits)+
  show ?thesis
    using lp lang' res iff val
    by (simp add: ast_speech_change_state_def log_frame_def)
qed

theorem google_recog_start_config_frame_witness:
  "google_recog_start (Returns ()) (Returns True) (Returns True) created_speech created_world =
     Some (0, started_speech, started_world) \<and>
   cells started_world 7 =
     Some (Stream \<lparr>sent = [default_config_frame], half_closed = False\<rparr>) \<and>
   google_recog_start (Returns ()) (Returns True) (Returns True) created_speech tuned_world =
     Some (0, started_speech, tuned_started_world) \<and>
   cells tuned_started_world 7 =
     Some (Stream \<lparr>sent = [tuned_config_frame], half_closed = False\<rparr>)"
  using google_recog_start_config_frame [OF start_created [of "Returns True"] data_created]
    google_recog_start_config_frame [OF start_tuned [of "Returns True"] data_created]
    start_created [of "Returns True"] start_tuned [of "Returns True"]
  by (auto simp: example_defs chars_at_def)

subsection \<open>Stopping\<close>

lemma google_recog_stop_step:
  assumes "data speech = Some g" and "stream_usable w g"
  shows "\<exists>w1. google_recog_stop wd speech w =
                 Some (0, speech\<lparr>state := AST_SPEECH_STATE_NOT_READY\<rparr>, w1) \<and>
              stream_usable w1 g"
proof (cases "stream g")
  case None
  with assms show ?thesis
    by (simp add: google_recog_stop_def ast_speech_change_state_def)
next
  case (Some sp)
  with assms(2) obtain rw where rw: "cells w sp = Some (Stream rw)"
    by (auto simp: stream_usable_def split: option.splits cell.splits)
  show ?thesis
  proof (cases wd)
    case (Returns b)
    with assms(1) Some rw show ?thesis
      by (cases b)
         (simp_all add: google_recog_stop_def ast_speech_change_state_def stream_usable_def)
  next
    case Throws
    with assms Some rw show ?thesis
      by (simp add: google_recog_stop_def ast_speech_change_state_def)
  qed
qed

lemma stop_calls_session:
  assumes "data speech = Some g" and "stream_usable w g"
  shows "\<exists>t. stop_calls wds speech w = Some t \<and> length t = length wds \<and>
             (\<forall>(r, st) \<in> set t. r = 0 \<and> st = AST_SPEECH_STATE_NOT_READY)"
  using assms
proof (induction wds arbitrary: speech w)
  case Nil
  then show ?case by simp
next
  case (Cons wd wds)
  from google_recog_stop_step [OF Cons.prems, of wd] obtain w1 where
    step: "google_recog_stop wd speech w =
             Some (0, speech\<lparr>state := AST_SPEECH_STATE_NOT_READY\<rparr>, w1)"
    and usable: "stream_usable w1 g"
    by blast
  have "data (speech\<lparr>state := AST_SPEECH_STATE_NOT_READY\<rparr>) = Some g"
    using Cons.prems(1) by simp
  from Cons.IH [OF this usable] obtain t where
    t: "stop_calls wds (speech\<lparr>state := AST_SPEECH_STATE_NOT_READY\<rparr>) w1 = Some t"
       "length t = length wds"
       "\<forall>(r, st) \<in> set t. r = 0 \<and> st = AST_SPEECH_STATE_NOT_READY"
    by blast
  with step show ?case by simp
qed

lemma stop_calls_null:
  assumes "data speech = None"
  shows "stop_calls wds speech w = Some (replicate (length wds) (0, state speech))"
  using assms by (induction wds) (simp_all add: google_recog_stop_def)

text \<open>
  Claim C6. For every sequence of consecutive \<open>google_recog_stop\<close> calls, whatever
  \<open>WritesDone\<close> does in each of them (it succeeds, fails or throws) and whether the
  stream is open or absent, every call returns \<open>0\<close>; on a session, that is when the
  engine data is present, every call also leaves the state \<open>NOT_READY\<close>. The stream
  pointer of the session is null or a live stream.
\<close>

theorem google_recog_stop_always_succeeds:
  assumes "\<forall>g. data speech = Some g \<longrightarrow> stream_usable w g"
  shows "\<exists>t. stop_calls wds speech w = Some t \<and> length t = length wds \<and>
             (\<forall>(r, st) \<in> set t.
                r = 0 \<and> (data speech \<noteq> None \<longrightarrow> st = AST_SPEECH_STATE_NOT_READY))"
proof (cases "data speech")
  case None
  then show ?thesis
    by (simp add: stop_calls_null)
next
  case (Some g)
  with assms have "stream_usable w g"
    by simp
  from stop_calls_session [OF Some this, of wds] Some show ?thesis
    by fastforce
qed

theorem google_recog_stop_always_succeeds_witness:
  "stop_calls [Returns True, Returns False, Throws] started_speech started_world =
     Some [(0, AST_SPEECH_STATE_NOT_READY), (0, AST_SPEECH_STATE_NOT_READY),
           (0, AST_SPEECH_STATE_NOT_READY)] \<and>
   stop_calls [Returns True, Returns True] created_speech created_world =
     Some [(0, AST_SPEECH_STATE_NOT_READY), (0, AST_SPEECH_STATE_NOT_READY)]"
proof -
  have u: "\<forall>g. data started_speech = Some g \<longrightarrow> stream_usable started_world g"
    by (simp add: stream_usable_def started_world_def started_session_def started_speech_def)
  have u': "\<forall>g. data created_speech = Some g \<longrightarrow> stream_usable created_world g"
    by (simp add: stream_usable_def created_session_def created_speech_def)
  from google_recog_stop_always_succeeds [OF u, of "[Returns True, Returns False, Throws]"]
  obtain t where
    t: "stop_calls [Returns True, Returns False, Throws] started_speech started_world = Some t"
       "length t = 3" "\<forall>(r, st) \<in> set t. r = 0 \<and> st = AST_SPEECH_STATE_NOT_READY"
    by (auto simp: data_started)
  from google_recog_stop_always_succeeds [OF u', of "[Returns True, Returns True]"]
  obtain t' where
    t': "stop_calls [Returns True, Returns True] created_speech created_world = Some t'"
        "length t' = 2" "\<forall>(r, st) \<in> set t'. r = 0 \<and> st = AST_SPEECH_STATE_NOT_READY"
    by (auto simp: data_created)
  from t(2,3) have "t = [(0, AST_SPEECH_STATE_NOT_READY), (0, AST_SPEECH_STATE_NOT_READY),
                         (0, AST_SPEECH_STATE_NOT_READY)]"
    by (auto simp: length_Suc_conv numeral_3_eq_3)
  moreover from t'(2,3) have
    "t' = [(0, AST_SPEECH_STATE_NOT_READY), (0, AST_SPEECH_STATE_NOT_READY)]"
    by (auto simp: length_Suc_conv numeral_2_eq_2)
  ultimately show ?thesis
    using t(1) t'(1) by simp
qed

subsection \<open>Settings\<close>

text \<open>
  Claim C7, as the specification states it, fails: on a session with valid data,
  \<open>google_recog_change\<close> returns \<open>0\<close>, which is success.
\<close>

theorem google_recog_change_counterexample:
  "data created_speech = Some created_session \<and>
   google_recog_change created_speech ''language_code'' ''es-ES'' = 0"
  by (simp add: google_recog_change_def created_speech_def)

text \<open>
  Claim C7, amended. For every session with valid data, \<open>google_recog_get_settings\<close>
  and \<open>google_recog_change_results_type\<close> return the failure \<open>-1\<close>, and
  \<open>google_recog_change\<close> accepts the call and returns \<open>0\<close>.
\<close>

theorem settings_calls_results:
  "data speech = Some g \<Longrightarrow>
   google_recog_change speech setting_name setting_value = 0 \<and>
   google_recog_get_settings speech setting_name = - 1 \<and>
   google_recog_change_results_type speech results_type = - 1"
  by (simp add: google_recog_change_def google_recog_get_settings_def
                google_recog_change_results_type_def)

theorem settings_calls_results_witness:
  "google_recog_change created_speech ''language_code'' ''es-ES'' = 0 \<and>
   google_recog_get_settings created_speech ''language_code'' = - 1 \<and>
   google_recog_change_results_type created_speech AST_SPEECH_RESULTS_TYPE_NBEST = - 1"
  using settings_calls_results [OF data_created] by blast

subsection \<open>Null engine data\<close>

text \<open>
  Claim C10. On a speech object whose engine data pointer is null, every callback
  returns at once, with the speech object and the store unchanged: destroy, stop and
  dtmf return \<open>0\<close>; write, the four grammar callbacks and the three settings callbacks
  return \<open>-1\<close>, and so does start; get returns no result.
\<close>

theorem null_data_callbacks:
  "data speech = None \<Longrightarrow>
   google_recog_destroy fin speech w = Some (0, speech, w) \<and>
   google_recog_stop wd speech w = Some (0, speech, w) \<and>
   google_recog_dtmf speech dtmf = 0 \<and>
   google_recog_write wr rd dup_ok speech bytes w = Some (- 1, speech, w) \<and>
   google_recog_load_grammar speech grammar_name grammar_path = - 1 \<and>
   google_recog_unload_grammar speech grammar_name = - 1 \<and>
   google_recog_activate_grammar speech grammar_name = - 1 \<and>
   google_recog_deactivate_grammar speech grammar_name = - 1 \<and>
   google_recog_change speech setting_name setting_value = - 1 \<and>
   google_recog_get_settings speech setting_name = - 1 \<and>
   google_recog_change_results_type speech results_type = - 1 \<and>
   google_recog_get alloc_ok speech w = Some (None, speech, w) \<and>
   google_recog_start opn wr fin speech w = Some (- 1, speech, w)"
  by (simp add: google_recog_destroy_def google_recog_stop_def google_recog_dtmf_def
                google_recog_start_def
                google_recog_write_def google_recog_load_grammar_def
                google_recog_unload_grammar_def google_recog_activate_grammar_def
                google_recog_deactivate_grammar_def google_recog_change_def
                google_recog_get_settings_def google_recog_change_results_type_def
                google_recog_get_def)

theorem null_data_callbacks_witness:
  "google_recog_destroy (Returns True) null_speech created_world =
     Some (0, null_speech, created_world) \<and>
   google_recog_stop (Returns True) null_speech created_world =
     Some (0, null_speech, created_world) \<and>
   google_recog_dtmf null_speech ''5'' = 0 \<and>
   google_recog_write (Returns True) (Returns (Some hello_response)) True
     null_speech ''abcd'' created_world = Some (- 1, null_speech, created_world) \<and>
   google_recog_load_grammar null_speech ''digits'' ''/tmp/digits.gram'' = - 1 \<and>
   google_recog_unload_grammar null_speech ''digits'' = - 1 \<and>
   google_recog_activate_grammar null_speech ''digits'' = - 1 \<and>
   google_recog_deactivate_grammar null_speech ''digits'' = - 1 \<and>
   google_recog_change null_speech ''language_code'' ''es-ES'' = - 1 \<and>
   google_recog_get_settings null_speech ''language_code'' = - 1 \<and>
   google_recog_change_results_type null_speech AST_SPEECH_RESULTS_TYPE_NBEST = - 1 \<and>
   google_recog_get True null_speech created_world = Some (None, null_speech, created_world) \<and>
   google_recog_start (Returns ()) (Returns True) (Returns True) null_speech created_world =
     Some (- 1, null_speech, created_world)"
proof -
  have d: "data null_speech = None"
    by (simp add: null_speech_def)
  show ?thesis
    using null_data_callbacks [OF d] by blast
qed

subsection \<open>Destruction\<close>

text \<open>
  Claim C4 does not hold of the code. The session \<open>heard_speech\<close> has an open stream
  and a pending transcript. \<open>google_recog_destroy\<close>, with a \<open>Finish\<close> that returns an
  ok status, returns \<open>0\<close>, clears the data pointer and releases the stream, the
  context, the stub, the name, the pending transcript and the language code; the
  model string of the session and its channel object are still live afterwards, and
  nothing refers to them any more.
\<close>

theorem google_recog_destroy_leaks_model:
  "google_recog_destroy (Returns True) heard_speech heard_world =
     Some (0, heard_speech\<lparr>data := None\<rparr>, leaked_world) \<and>
   model heard_session = Some 3 \<and> cells leaked_world 3 = Some (Chars ''default'') \<and>
   channel_ptr heard_session = Some 4 \<and> cells leaked_world 4 = Some Channel \<and>
   dom (cells leaked_world) = {3, 4}"
  by (auto simp: google_recog_destroy_def example_defs store_defs fun_eq_iff)

end
